theory Spec2Isabelle
  imports Complex_Main
begin

section \<open>Newtonian gravity: the physics engine of newtoniangravity.py\<close>

text \<open>
  The program keeps a list of point masses (class \<^verbatim>\<open>gravpoint\<close>) and advances it tick by
  tick: \<^verbatim>\<open>merge_detect\<close>, then \<^verbatim>\<open>gravity\<close>, then \<^verbatim>\<open>move\<close> on every point.

  Conventions of the embedding.
  \<^item> Python floats and numpy float arrays are idealised as \<^typ>\<open>real\<close> numbers; rounding,
    infinities and NaN are outside the model. The docstrings give every position and
    velocity as an array of three floats, which is the dtype modelled here.
  \<^item> The one float operation whose rounding decides an integer, \<^verbatim>\<open>mass ** (1/3)\<close> under
    \<^verbatim>\<open>int\<close> in the constructor, is not idealised: the platform's double-precision power
    is a parameter \<open>pw\<close> of the model.
  \<^item> The source is read as Python 3 (\<^verbatim>\<open>1/3\<close> is true division).
  \<^item> Every \<^verbatim>\<open>raise\<close> is a value: a function that can raise returns \<open>error + 'a\<close>.
  \<^item> Mutation of the list \<^verbatim>\<open>gpoints\<close> is explicit state passing.
\<close>

subsection \<open>Vectors: numpy arrays of length three\<close>

type_synonym vec3 = "real \<times> real \<times> real"

text \<open>\<^verbatim>\<open>a + b\<close>, \<^verbatim>\<open>a - b\<close>, \<^verbatim>\<open>a * s\<close> and \<^verbatim>\<open>a / s\<close> on arrays work component by component.\<close>

fun vadd :: "vec3 \<Rightarrow> vec3 \<Rightarrow> vec3" where
  "vadd (a1, a2, a3) (b1, b2, b3) = (a1 + b1, a2 + b2, a3 + b3)"

fun vsub :: "vec3 \<Rightarrow> vec3 \<Rightarrow> vec3" where
  "vsub (a1, a2, a3) (b1, b2, b3) = (a1 - b1, a2 - b2, a3 - b3)"

fun vscale :: "vec3 \<Rightarrow> real \<Rightarrow> vec3" where
  "vscale (a1, a2, a3) s = (a1 * s, a2 * s, a3 * s)"

fun vdiv :: "vec3 \<Rightarrow> real \<Rightarrow> vec3" where
  "vdiv (a1, a2, a3) s = (a1 / s, a2 / s, a3 / s)"

text \<open>
  \<^verbatim>\<open>point.all()\<close> is numpy's test that every component is nonzero (truthy).
\<close>

fun vall :: "vec3 \<Rightarrow> bool" where
  "vall (a1, a2, a3) = (a1 \<noteq> 0 \<and> a2 \<noteq> 0 \<and> a3 \<noteq> 0)"

definition zero3 :: vec3 where
  "zero3 = (0, 0, 0)"

text \<open>
  \<^verbatim>\<open>
  def distance(point1, point2):
      sum = 0
      for i in range(3):
          sum += (point1[i] - point2[i])**2
      return sqrt(sum)
  \<close>
\<close>

fun distance :: "vec3 \<Rightarrow> vec3 \<Rightarrow> real" where
  "distance (a1, a2, a3) (b1, b2, b3) =
     sqrt (0 + (a1 - b1)\<^sup>2 + (a2 - b2)\<^sup>2 + (a3 - b3)\<^sup>2)"

text \<open>
  \<^verbatim>\<open>
  def normalize(point):
      if point.all() == 0:
          return point
      zero = [0,0,0]
      dist = distance(point,zero)
      for i in range(3):
          point[i] = point[i]/dist
  \<close>
  The function mutates its argument; the model returns the array's content after the
  call. \<^verbatim>\<open>point.all() == 0\<close> compares the boolean \<^verbatim>\<open>point.all()\<close> with 0, so it holds
  exactly when \<^verbatim>\<open>point.all()\<close> is false.
\<close>

definition normalize3 :: "vec3 \<Rightarrow> vec3" where
  "normalize3 point =
     (if vall point = False then point
      else vdiv point (distance point zero3))"

subsection \<open>Bodies: class gravpoint\<close>

datatype error = IndexError | TypeError | ValueError

record gravpoint =
  mass :: real
  pos :: vec3
  vel :: vec3
  radius :: int
  imov :: bool
  color :: vec3

text \<open>
  \<^verbatim>\<open>
  def __init__(self, pos, mass, vel, imov = False, color = (255,255,255)):
      self.mass = mass
      self.pos = pos
      self.vel = vel
      self.radius = int((mass)**(1/3))
      self.imov = imov
      self.color = color
  \<close>
  \<^verbatim>\<open>mass ** (1/3)\<close> is computed by the platform's double-precision power, a library
  function outside this repository: \<open>pw m\<close> stands for the double it returns for a mass
  \<open>m\<close> that is not negative. Its rounding matters: CPython gives
  \<^verbatim>\<open>64 ** (1/3) = 3.9999999999999996\<close>. For a negative mass \<^verbatim>\<open>**\<close> with the exponent
  \<^verbatim>\<open>1/3\<close> gives a complex number and \<^verbatim>\<open>int\<close> raises TypeError. \<^verbatim>\<open>int\<close> of a float
  truncates towards zero.
\<close>

definition py_int :: "real \<Rightarrow> int" where
  "py_int x = (if 0 \<le> x then \<lfloor>x\<rfloor> else \<lceil>x\<rceil>)"

definition gravpoint_init ::
  "(real \<Rightarrow> real) \<Rightarrow> vec3 \<Rightarrow> real \<Rightarrow> vec3 \<Rightarrow> bool \<Rightarrow> vec3 \<Rightarrow> error + gravpoint" where
  "gravpoint_init pw p m v im c =
     (if m < 0 then Inl TypeError
      else Inr \<lparr>mass = m, pos = p, vel = v, radius = py_int (pw m),
                imov = im, color = c\<rparr>)"

definition white :: vec3 where
  "white = (255, 255, 255)"

text \<open>
  \<^verbatim>\<open>
  def move(self):
      if not self.imov:
          self.pos = self.pos + self.vel

  def update(self, force):
      self.vel = self.vel + force/self.mass
  \<close>
  With a mass of zero numpy's division gives infinities or NaN and a warning, no
  exception; the model is meant for masses other than zero there.
\<close>

definition move :: "gravpoint \<Rightarrow> gravpoint" where
  "move self = (if \<not> imov self then self\<lparr>pos := vadd (pos self) (vel self)\<rparr> else self)"

definition update :: "gravpoint \<Rightarrow> vec3 \<Rightarrow> gravpoint" where
  "update self force = self\<lparr>vel := vadd (vel self) (vdiv force (mass self))\<rparr>"

text \<open>
  \<^verbatim>\<open>
  def __add__(self, other):
      if isinstance(other, self.__class__):
          newmass = self.mass + other.mass
          selfin = (self.vel * self.mass)
          otherin = (other.vel * other.mass)
          combmass = (self.mass + other.mass)
          newvel = (selfin + otherin) / combmass
          newimov = self.imov or other.imov
          newpos = self.pos + other.pos/2
          if newimov:
              if self.imov:
                  newpos = self.pos
              else:
                  newpos = other.pos
          newcol = ( (self.color[0] + other.color[0]) / 2,
                     (self.color[1] + other.color[1]) / 2,
                     (self.color[2] + other.color[2]) / 2)
          new = gravpoint(newpos,newmass,newvel, imov = newimov, color = newcol)
          return new
  \<close>
  The program only adds a \<^verbatim>\<open>gravpoint\<close> to a \<^verbatim>\<open>gravpoint\<close>, so the \<^verbatim>\<open>isinstance\<close> test
  holds; the constructor call is where the merge can raise.
\<close>

fun color_avg :: "vec3 \<Rightarrow> vec3 \<Rightarrow> vec3" where
  "color_avg (a1, a2, a3) (b1, b2, b3) = ((a1 + b1) / 2, (a2 + b2) / 2, (a3 + b3) / 2)"

definition add :: "(real \<Rightarrow> real) \<Rightarrow> gravpoint \<Rightarrow> gravpoint \<Rightarrow> error + gravpoint" where
  "add pw self other =
     (let newmass = mass self + mass other;
          selfin = vscale (vel self) (mass self);
          otherin = vscale (vel other) (mass other);
          combmass = mass self + mass other;
          newvel = vdiv (vadd selfin otherin) combmass;
          newimov = (imov self \<or> imov other);
          newpos = vadd (pos self) (vdiv (pos other) 2);
          newpos = (if newimov then (if imov self then pos self else pos other) else newpos);
          newcol = color_avg (color self) (color other)
      in gravpoint_init pw newpos newmass newvel newimov newcol)"

text \<open>
  \<^verbatim>\<open>
  def __eq__(self, other):
      if isinstance(other, self.__class__):
          req1 = self.pos.all() == other.pos.all()
          req2 = self.vel.all() == other.vel.all()
          req3 = self.mass == other.mass
          if req1 and req2 and req3:
              return True
      return False
  \<close>
\<close>

definition gp_eq :: "gravpoint \<Rightarrow> gravpoint \<Rightarrow> bool" where
  "gp_eq self other =
     (let req1 = (vall (pos self) = vall (pos other));
          req2 = (vall (vel self) = vall (vel other));
          req3 = (mass self = mass other)
      in if req1 \<and> req2 \<and> req3 then True else False)"

subsection \<open>Sequencing calls that can raise\<close>

definition bindE :: "error + 'a \<Rightarrow> ('a \<Rightarrow> error + 'b) \<Rightarrow> error + 'b" where
  "bindE m f = (case m of Inl e \<Rightarrow> Inl e | Inr x \<Rightarrow> f x)"

text \<open>Evaluate a list of calls from left to right; the first one that raises ends it.\<close>

fun collect :: "(error + 'a) list \<Rightarrow> error + 'a list" where
  "collect [] = Inr []"
| "collect (m # ms) = bindE m (\<lambda>x. bindE (collect ms) (\<lambda>xs. Inr (x # xs)))"

subsection \<open>The merge pass: merge_detect\<close>

text \<open>
  \<^verbatim>\<open>gpoints.remove(x)\<close> deletes the first item that compares equal to \<^verbatim>\<open>x\<close>, with the
  class's own \<^verbatim>\<open>__eq__\<close>, and raises ValueError when there is none.
  \<^verbatim>\<open>gpoints[k] = new\<close> raises IndexError when \<^verbatim>\<open>k\<close> is out of range.
\<close>

fun list_remove :: "gravpoint \<Rightarrow> gravpoint list \<Rightarrow> error + gravpoint list" where
  "list_remove x [] = Inl ValueError"
| "list_remove x (g # gs) =
     (if gp_eq g x then Inr gs
      else bindE (list_remove x gs) (\<lambda>gs'. Inr (g # gs')))"

definition list_set :: "gravpoint list \<Rightarrow> nat \<Rightarrow> gravpoint \<Rightarrow> error + gravpoint list" where
  "list_set gs k new = (if k < length gs then Inr (gs[k := new]) else Inl IndexError)"

text \<open>
  \<^verbatim>\<open>
  def merge_detect(gpoints):
      for i in range(len(gpoints)):
          for j in range(i + 1, len(gpoints)):
              try:
                  sumradi = gpoints[i].radius + gpoints[j].radius -1
                  rad = gpoints[i].radius + gpoints[j].radius
                  dist = distance(gpoints[i].pos, gpoints[j].pos)
                  if dist < rad:
                      new = gpoints[i] + gpoints[j]
                      if i > j:
                          gpoints.remove(gpoints[i])
                          gpoints[j] = new
                      else:
                          gpoints.remove(gpoints[j])
                          gpoints[i] = new
              except IndexError:
                  continue
  \<close>
  The list is mutated in place, so a statement that raises leaves behind what the
  statements before it did: the body of the \<^verbatim>\<open>try\<close> returns either the new list, or
  the exception together with the list as it is at the raise.
\<close>

definition remove_then_set ::
  "gravpoint \<Rightarrow> nat \<Rightarrow> gravpoint \<Rightarrow> gravpoint list \<Rightarrow> (error \<times> gravpoint list) + gravpoint list" where
  "remove_then_set x k new gs =
     (case list_remove x gs of
        Inl e \<Rightarrow> Inl (e, gs)
      | Inr gs1 \<Rightarrow>
          (case list_set gs1 k new of
             Inl e \<Rightarrow> Inl (e, gs1)
           | Inr gs2 \<Rightarrow> Inr gs2))"

definition merge_pair ::
  "(real \<Rightarrow> real) \<Rightarrow> nat \<Rightarrow> nat \<Rightarrow> gravpoint list
     \<Rightarrow> (error \<times> gravpoint list) + gravpoint list" where
  "merge_pair pw i j gs =
     (if length gs \<le> i \<or> length gs \<le> j then Inl (IndexError, gs)
      else
        let rad = radius (gs ! i) + radius (gs ! j);
            dist = distance (pos (gs ! i)) (pos (gs ! j))
        in if dist < of_int rad then
             (case add pw (gs ! i) (gs ! j) of
                Inl e \<Rightarrow> Inl (e, gs)
              | Inr new \<Rightarrow>
                  if i > j then remove_then_set (gs ! i) j new gs
                  else remove_then_set (gs ! j) i new gs)
           else Inr gs)"

text \<open>
  The inner loop runs over the indices fixed when it starts; IndexError is caught and
  the loop goes on with the list as it is, every other exception leaves the function.
\<close>

fun inner_loop ::
  "(real \<Rightarrow> real) \<Rightarrow> nat \<Rightarrow> nat list \<Rightarrow> gravpoint list \<Rightarrow> error + gravpoint list" where
  "inner_loop pw i [] gs = Inr gs"
| "inner_loop pw i (j # js) gs =
     (case merge_pair pw i j gs of
        Inl (e, gs') \<Rightarrow> (if e = IndexError then inner_loop pw i js gs' else Inl e)
      | Inr gs' \<Rightarrow> inner_loop pw i js gs')"

text \<open>
  The outer range is fixed from the length at the call; each inner range is computed
  from the length the list has when that inner loop starts.
\<close>

fun outer_loop ::
  "(real \<Rightarrow> real) \<Rightarrow> nat list \<Rightarrow> gravpoint list \<Rightarrow> error + gravpoint list" where
  "outer_loop pw [] gs = Inr gs"
| "outer_loop pw (i # is) gs =
     bindE (inner_loop pw i [i + 1 ..< length gs] gs) (\<lambda>gs'. outer_loop pw is gs')"

definition merge_detect :: "(real \<Rightarrow> real) \<Rightarrow> gravpoint list \<Rightarrow> error + gravpoint list" where
  "merge_detect pw gpoints = outer_loop pw [0 ..< length gpoints] gpoints"

subsection \<open>The force pass: gravity\<close>

text \<open>
  \<^verbatim>\<open>GRAVEC = (6.67 * (10**-11)) * 1000\<close>
\<close>

definition GRAVEC :: real where
  "GRAVEC = (6.67 * (1 / 10 ^ 11)) * 1000"

text \<open>
  \<^verbatim>\<open>
  force = (GRAVEC * (mainpoint.mass*1000 * otherpoint.mass*1000))
  dist = distance(mainpoint.pos, otherpoint.pos)
  if dist == 0:
      force = 0
  else:
      force = force/(dist**2)
      if dist <= 5:
          force = log(force)
  \<close>
  \<^verbatim>\<open>math.log\<close> raises ValueError for an argument that is not positive.
\<close>

definition pair_force :: "gravpoint \<Rightarrow> gravpoint \<Rightarrow> error + real" where
  "pair_force mainpoint otherpoint =
     (let force = GRAVEC * (mass mainpoint * 1000 * mass otherpoint * 1000);
          dist = distance (pos mainpoint) (pos otherpoint)
      in if dist = 0 then Inr 0
         else
           let force = force / dist\<^sup>2
           in if dist \<le> 5 then (if 0 < force then Inr (ln force) else Inl ValueError)
              else Inr force)"

text \<open>
  \<^verbatim>\<open>
  par_force = copy(otherpoint.pos)
  par_force = par_force - mainpoint.pos
  normalize(par_force)
  par_force = par_force*force
  \<close>
\<close>

definition par_force :: "gravpoint \<Rightarrow> gravpoint \<Rightarrow> error + vec3" where
  "par_force mainpoint otherpoint =
     bindE (pair_force mainpoint otherpoint)
       (\<lambda>force. Inr (vscale (normalize3 (vsub (pos otherpoint) (pos mainpoint))) force))"

text \<open>The loop over \<^verbatim>\<open>j\<close>, skipping \<^verbatim>\<open>i == j\<close>, appending each partial force.\<close>

fun par_forces :: "gravpoint list \<Rightarrow> nat \<Rightarrow> nat list \<Rightarrow> error + vec3 list" where
  "par_forces gs i [] = Inr []"
| "par_forces gs i (j # js) =
     (if i = j then par_forces gs i js
      else bindE (par_force (gs ! i) (gs ! j))
             (\<lambda>f. bindE (par_forces gs i js) (\<lambda>fs. Inr (f # fs))))"

text \<open>
  \<^verbatim>\<open>
  force = np.array([0,0,0])
  for i in range(len(par_forces)):
      force = force + par_forces[i]
  \<close>
\<close>

definition net_force :: "gravpoint list \<Rightarrow> nat \<Rightarrow> error + vec3" where
  "net_force gs i =
     bindE (par_forces gs i [0 ..< length gs])
       (\<lambda>fs. Inr (fold (\<lambda>f force. vadd force f) fs zero3))"

fun forces :: "gravpoint list \<Rightarrow> nat list \<Rightarrow> error + vec3 list" where
  "forces gs [] = Inr []"
| "forces gs (i # is) =
     bindE (net_force gs i) (\<lambda>f. bindE (forces gs is) (\<lambda>fs. Inr (f # fs)))"

text \<open>
  \<^verbatim>\<open>
  for i in range(len(gpoints)):
      gpoints[i].update(forces[i])
  \<close>
\<close>

definition gravity :: "gravpoint list \<Rightarrow> error + gravpoint list" where
  "gravity gpoints =
     bindE (forces gpoints [0 ..< length gpoints])
       (\<lambda>fs. Inr (map (\<lambda>(g, f). update g f) (zip gpoints fs)))"

subsection \<open>One tick: updateall\<close>

text \<open>
  \<^verbatim>\<open>
  def updateall(gpoints):
      merge_detect(gpoints)
      gravity(gpoints)
      for gpoint in gpoints:
          gpoint.move()
  \<close>
\<close>

definition updateall :: "(real \<Rightarrow> real) \<Rightarrow> gravpoint list \<Rightarrow> error + gravpoint list" where
  "updateall pw gpoints =
     bindE (merge_detect pw gpoints)
       (\<lambda>gs1. bindE (gravity gs1) (\<lambda>gs2. Inr (map move gs2)))"

text \<open>
  The main loop calls \<^verbatim>\<open>updateall(gpoints)\<close> once per frame; \<open>ticks n\<close> is \<open>n\<close> frames.
\<close>

fun ticks :: "(real \<Rightarrow> real) \<Rightarrow> nat \<Rightarrow> gravpoint list \<Rightarrow> error + gravpoint list" where
  "ticks pw 0 gs = Inr gs"
| "ticks pw (Suc n) gs = bindE (updateall pw gs) (ticks pw n)"

text \<open>
  What the two integrator calls do to one body over several ticks: in each tick
  \<^verbatim>\<open>gravity\<close> calls \<^verbatim>\<open>update\<close> with that tick's force and \<^verbatim>\<open>updateall\<close> then calls
  \<^verbatim>\<open>move\<close>.
\<close>

definition integrate :: "gravpoint \<Rightarrow> vec3 list \<Rightarrow> gravpoint" where
  "integrate g fs = fold (\<lambda>force self. move (update self force)) fs g"

subsection \<open>The scenarios and the entry point\<close>

text \<open>
  \<^verbatim>\<open>
  gpoints = []
  centerp = gravpoint(np.array([0,0,0]), 1500, np.array([0,0,0]), imov = True)
  if "square" in sys.argv: ... gpoints += [gp1, gp2, gp3, gp4, gp5]
  if "circle" in sys.argv: ...
  if "line" in sys.argv: ...
  if "orbit" in sys.argv: ...
  \<close>
\<close>

definition centerp :: "(real \<Rightarrow> real) \<Rightarrow> error + gravpoint" where
  "centerp pw = gravpoint_init pw (0, 0, 0) 1500 (0, 0, 0) True white"

definition scenario_square :: "(real \<Rightarrow> real) \<Rightarrow> error + gravpoint list" where
  "scenario_square pw = collect
     [gravpoint_init pw (0, - 50, 0) 100 (0, 0, 0) False white,
      gravpoint_init pw (0, 50, 0) 100 (0, 0, 0) False white,
      gravpoint_init pw (50, 0, 0) 100 (0, 0, 0) False white,
      gravpoint_init pw (- 50, 0, 0) 100 (0, 0, 0) False white,
      gravpoint_init pw (0, 0, 0) 200 (0, 0, 1) False white]"

text \<open>
  \<^verbatim>\<open>
  gpoints += [centerp]
  for i in range(0,360,10):
      cosang = cos(i)
      sinang = sin(i)
      sin2ang  = sin(i + 60)
      cos2ang  = cos(i + 60)
      gpoints += [gravpoint(np.array([cosang*100,sinang*100,0]),
       50, np.array([cos2ang*10,sin2ang*10,0]),
        color = (abs(sinang)*255,abs(cosang)*255,abs(sin2ang)*255))]
  \<close>
\<close>

definition circle_point :: "(real \<Rightarrow> real) \<Rightarrow> nat \<Rightarrow> error + gravpoint" where
  "circle_point pw i =
     (let cosang = cos (real i);
          sinang = sin (real i);
          sin2ang = sin (real (i + 60));
          cos2ang = cos (real (i + 60))
      in gravpoint_init pw (cosang * 100, sinang * 100, 0) 50 (cos2ang * 10, sin2ang * 10, 0)
           False (\<bar>sinang\<bar> * 255, \<bar>cosang\<bar> * 255, \<bar>sin2ang\<bar> * 255))"

definition scenario_circle :: "(real \<Rightarrow> real) \<Rightarrow> gravpoint \<Rightarrow> error + gravpoint list" where
  "scenario_circle pw c = collect (Inr c # map (\<lambda>k. circle_point pw (10 * k)) [0 ..< 36])"

definition scenario_line :: "(real \<Rightarrow> real) \<Rightarrow> error + gravpoint list" where
  "scenario_line pw = collect
     [gravpoint_init pw (0, - 50, 0) 100 (0, 0, 0) False white,
      gravpoint_init pw (0, 50, 0) 100 (0, 0, 0) False white,
      gravpoint_init pw (0, 100, 0) 100 (0, 0, 0) False white,
      gravpoint_init pw (0, - 100, 0) 100 (0, 0, 0) False white,
      gravpoint_init pw (0, 200, 0) 100 (0, 0, 0) False white,
      gravpoint_init pw (0, - 200, 0) 100 (0, 0, 0) False white]"

definition scenario_orbit :: "(real \<Rightarrow> real) \<Rightarrow> error + gravpoint list" where
  "scenario_orbit pw = collect
     [gravpoint_init pw (0, 0, 0) 2000 (- 1, 0, 0) False white,
      gravpoint_init pw (0, 100, 0) 200 (10, 0, 0) False white]"

text \<open>The module-level statements, run with the command line \<^verbatim>\<open>sys.argv\<close>.\<close>

definition module_gpoints :: "(real \<Rightarrow> real) \<Rightarrow> string list \<Rightarrow> error + gravpoint list" where
  "module_gpoints pw argv =
     bindE (centerp pw) (\<lambda>c.
     bindE (if ''square'' \<in> set argv then scenario_square pw else Inr []) (\<lambda>g1.
     bindE (if ''circle'' \<in> set argv then scenario_circle pw c else Inr []) (\<lambda>g2.
     bindE (if ''line'' \<in> set argv then scenario_line pw else Inr []) (\<lambda>g3.
     bindE (if ''orbit'' \<in> set argv then scenario_orbit pw else Inr []) (\<lambda>g4.
       Inr ([] @ g1 @ g2 @ g3 @ g4))))))"

text \<open>
  \<^verbatim>\<open>
  def main():
      try:
          gpoints
      except NameError:
          print("No command given or command unrecognized")
          sys.exit()
      ... pygame setup, then the endless loop calling updateall(gpoints)
  \<close>
  The argument of \<open>main_start\<close> is what the global name \<^verbatim>\<open>gpoints\<close> is bound to,
  \<open>None\<close> when it is unbound (NameError). \<^verbatim>\<open>sys.exit()\<close> without an argument ends the
  process with status 0.
\<close>

datatype outcome =
    Exited int "string list"
  | Simulating "gravpoint list"
  | Uncaught error

definition main_start :: "gravpoint list option \<Rightarrow> outcome" where
  "main_start binding =
     (case binding of
        None \<Rightarrow> Exited 0 [''No command given or command unrecognized'']
      | Some gs \<Rightarrow> Simulating gs)"

text \<open>The module binds \<^verbatim>\<open>gpoints\<close> before \<^verbatim>\<open>main\<close> is called.\<close>

definition program :: "(real \<Rightarrow> real) \<Rightarrow> string list \<Rightarrow> outcome" where
  "program pw argv =
     (case module_gpoints pw argv of
        Inl e \<Rightarrow> Uncaught e
      | Inr gs \<Rightarrow> main_start (Some gs))"

subsection \<open>The specification's formulas\<close>

text \<open>The midpoint of two positions, as the specification words the merged position.\<close>

definition midpoint :: "vec3 \<Rightarrow> vec3 \<Rightarrow> vec3" where
  "midpoint p q = vdiv (vadd p q) 2"

text \<open>
  The specification's force magnitude for two masses at distance \<open>d\<close>:
  \<open>raw = G * (mass_i*1000) * (mass_j*1000)\<close> with \<open>G = 6.67e-11 * 1000\<close>; the magnitude is
  0 when \<open>d = 0\<close>, else \<open>raw / d^2\<close>, replaced by its natural logarithm when \<open>d \<le> 5\<close>.
\<close>

definition spec_raw :: "real \<Rightarrow> real \<Rightarrow> real" where
  "spec_raw mi mj = (6.67 / 10 ^ 11 * 1000) * (mi * 1000) * (mj * 1000)"

definition spec_magnitude :: "real \<Rightarrow> real \<Rightarrow> real \<Rightarrow> real" where
  "spec_magnitude mi mj d =
     (if d = 0 then 0
      else if d \<le> 5 then ln (spec_raw mi mj / d\<^sup>2)
      else spec_raw mi mj / d\<^sup>2)"

text \<open>
  One pair's contribution with the specification's magnitude: the direction, which is
  what \<^verbatim>\<open>normalize\<close> leaves of \<open>pos_j - pos_i\<close>, times the magnitude.
\<close>

definition spec_contribution :: "gravpoint \<Rightarrow> gravpoint \<Rightarrow> vec3" where
  "spec_contribution mainpoint otherpoint =
     vscale (normalize3 (vsub (pos otherpoint) (pos mainpoint)))
       (spec_magnitude (mass mainpoint) (mass otherpoint)
          (distance (pos mainpoint) (pos otherpoint)))"

definition spec_net_force :: "gravpoint list \<Rightarrow> nat \<Rightarrow> vec3" where
  "spec_net_force gs i =
     fold (\<lambda>f force. vadd force f)
       (map (\<lambda>j. spec_contribution (gs ! i) (gs ! j)) (filter (\<lambda>j. i \<noteq> j) [0 ..< length gs]))
       zero3"

text \<open>The specification's derived radius: the floor of the real cube root of the mass.\<close>

definition spec_radius :: "real \<Rightarrow> int" where
  "spec_radius m = \<lfloor>m powr (1 / 3)\<rfloor>"

text \<open>The radius as the constructor derives it from the mass.\<close>

definition radius_derived :: "(real \<Rightarrow> real) \<Rightarrow> gravpoint \<Rightarrow> bool" where
  "radius_derived pw g = (radius g = py_int (pw (mass g)))"

definition total_mass :: "gravpoint list \<Rightarrow> real" where
  "total_mass gs = sum_list (map mass gs)"

subsection \<open>Concrete bodies used in the examples\<close>

definition body :: "real \<Rightarrow> vec3 \<Rightarrow> vec3 \<Rightarrow> int \<Rightarrow> bool \<Rightarrow> gravpoint" where
  "body m p v r im = \<lparr>mass = m, pos = p, vel = v, radius = r, imov = im, color = white\<rparr>"

text \<open>Two movable bodies, and a movable and an immovable one, for the merge.\<close>

definition movable_a :: gravpoint where
  "movable_a = body 10 (2, 4, 6) (1, 0, 0) 2 False"

definition movable_b :: gravpoint where
  "movable_b = body 30 (4, 8, 10) (0, 2, 0) 3 False"

definition anchor :: gravpoint where
  "anchor = body 70 (1, 2, 3) (0, 0, 0) 4 True"

text \<open>
  Three bodies on the x axis: the second and the third overlap, the first is far away
  and has the mass of the third.
\<close>

definition far_twin :: gravpoint where
  "far_twin = body 10 (100, 0, 0) (0, 0, 0) 2 False"

definition heavy :: gravpoint where
  "heavy = body 30 (0, 0, 0) (0, 0, 0) 3 False"

definition light :: gravpoint where
  "light = body 10 (1, 0, 0) (0, 0, 0) 2 False"

definition twin_world :: "gravpoint list" where
  "twin_world = [far_twin, heavy, light]"

text \<open>
  Three bodies of three different masses: the first two overlap, the third is far away.
\<close>

definition bystander :: gravpoint where
  "bystander = body 70 (100, 0, 0) (0, 0, 0) 4 False"

definition crowded_world :: "gravpoint list" where
  "crowded_world = [light, heavy, bystander]"

text \<open>
  The bodies that the merges of \<open>light\<close> with \<open>heavy\<close> and of \<open>heavy\<close> with \<open>light\<close> build,
  with the radius \<open>r\<close> that the constructor derives from the mass 40.
\<close>

definition light_heavy :: "int \<Rightarrow> gravpoint" where
  "light_heavy r = body 40 (1, 0, 0) (0, 0, 0) r False"

definition heavy_light :: "int \<Rightarrow> gravpoint" where
  "heavy_light r = body 40 (1 / 2, 0, 0) (0, 0, 0) r False"

text \<open>A power without rounding: the exact cube root.\<close>

definition exact_power :: "real \<Rightarrow> real" where
  "exact_power m = m powr (1 / 3)"

text \<open>The double just below 4, which CPython prints as 3.9999999999999996.\<close>

definition below_four :: real where
  "below_four = 4 - 1 / 2 ^ 51"

section \<open>Basic facts\<close>

lemma bindE_Inr [simp]: "bindE (Inr x) f = f x"
  by (simp add: bindE_def)

lemma bindE_Inl [simp]: "bindE (Inl e) f = Inl e"
  by (simp add: bindE_def)

text \<open>The cube root of a cube, and the floor of a cube root from the two cubes around it.\<close>

lemma cube_powr_third: "0 \<le> (x::real) \<Longrightarrow> (x ^ 3) powr (1 / 3) = x"
proof (cases "x = 0")
  case True
  then show ?thesis by simp
next
  case False
  assume "0 \<le> x"
  with False have "0 < x" by simp
  then have "(x ^ 3) powr (1 / 3) = (x powr 3) powr (1 / 3)"
    by simp
  also have "\<dots> = x powr (3 * (1 / 3))"
    by (simp only: powr_powr)
  finally show ?thesis using \<open>0 < x\<close> by simp
qed

lemma floor_cube_root:
  fixes m :: real
  assumes "0 \<le> r" and "of_int r ^ 3 \<le> m" and "m < (of_int r + 1) ^ 3"
  shows "\<lfloor>m powr (1 / 3)\<rfloor> = r"
proof (rule floor_unique)
  have r0: "0 \<le> (of_int r :: real)" using assms(1) by simp
  have "(of_int r ^ 3) powr (1 / 3) \<le> m powr (1 / 3)"
    using assms(2) r0 by (intro powr_mono2) simp_all
  then show "of_int r \<le> m powr (1 / 3)"
    using cube_powr_third [OF r0] by simp
  have m0: "0 \<le> m" using assms(2) r0 by (meson order_trans zero_le_power)
  have "m powr (1 / 3) < ((of_int r + 1) ^ 3) powr (1 / 3)"
    using assms(3) m0 by (intro powr_less_mono2) simp_all
  moreover have "((of_int r + 1 :: real) ^ 3) powr (1 / 3) = of_int r + 1"
    using r0 by (intro cube_powr_third) simp
  ultimately show "m powr (1 / 3) < of_int r + 1" by simp
qed

lemma gp_eq_refl: "gp_eq g g"
  by (simp add: gp_eq_def)

lemma py_int_below_four: "py_int below_four = 3"
proof -
  have "\<lfloor>below_four\<rfloor> = 3"
    unfolding below_four_def by (rule floor_unique) simp_all
  moreover have "0 \<le> below_four"
    by (simp add: below_four_def)
  ultimately show ?thesis by (simp add: py_int_def)
qed

lemma spec_radius_64: "spec_radius 64 = 4"
  unfolding spec_radius_def by (rule floor_cube_root) simp_all

section \<open>Merging two bodies\<close>

text \<open>The merge returns whenever the summed mass is not negative, with these fields.\<close>

lemma add_returns:
  "0 \<le> mass a + mass b \<Longrightarrow>
   add pw a b = Inr \<lparr>mass = mass a + mass b,
     pos = (if imov a \<or> imov b then (if imov a then pos a else pos b)
            else vadd (pos a) (vdiv (pos b) 2)),
     vel = vdiv (vadd (vscale (vel a) (mass a)) (vscale (vel b) (mass b))) (mass a + mass b),
     radius = py_int (pw (mass a + mass b)),
     imov = (imov a \<or> imov b),
     color = color_avg (color a) (color b)\<rparr>"
  by (simp add: add_def gravpoint_init_def Let_def)

lemma vscale_vdiv_cancel: "s \<noteq> 0 \<Longrightarrow> vscale (vdiv v s) s = v"
  by (cases v) simp

lemma add_radius_derived: "add pw a b = Inr g \<Longrightarrow> radius_derived pw g"
  by (auto simp: add_def gravpoint_init_def Let_def radius_derived_def split: if_splits)

lemma add_nonneg: "add pw a b = Inr g \<Longrightarrow> 0 \<le> mass g"
  by (auto simp: add_def gravpoint_init_def Let_def split: if_splits)

lemma add_nonneg_returns:
  "0 \<le> mass a \<Longrightarrow> 0 \<le> mass b \<Longrightarrow> \<exists>g. add pw a b = Inr g"
  by (simp add: add_returns del: split_paired_Ex)

lemma add_heavy_light: "add pw heavy light = Inr (heavy_light (py_int (pw 40)))"
  by (simp add: add_def light_def heavy_def heavy_light_def body_def gravpoint_init_def
      Let_def white_def)

lemma add_light_heavy: "add pw light heavy = Inr (light_heavy (py_int (pw 40)))"
  by (simp add: add_def light_def heavy_def light_heavy_def body_def gravpoint_init_def
      Let_def white_def)

text \<open>
  C2. For two bodies with positive masses the merge returns a body whose mass is the sum of
  the two masses and whose velocity is the momentum-weighted average of the two
  velocities; so the merged momentum (velocity times mass) is the sum of the two momenta.
\<close>

theorem add_conserves_mass_and_momentum:
  assumes "0 < mass a" and "0 < mass b"
  shows "\<exists>g. add pw a b = Inr g
           \<and> mass g = mass a + mass b
           \<and> vel g = vdiv (vadd (vscale (vel a) (mass a)) (vscale (vel b) (mass b)))
                          (mass a + mass b)
           \<and> vscale (vel g) (mass g) = vadd (vscale (vel a) (mass a)) (vscale (vel b) (mass b))"
proof -
  from assms have nn: "0 \<le> mass a + mass b" and nz: "mass a + mass b \<noteq> 0"
    by simp_all
  show ?thesis
    using add_returns [OF nn] vscale_vdiv_cancel [OF nz] by simp
qed

theorem add_conserves_mass_and_momentum_witness:
  "0 < mass movable_a \<and> 0 < mass movable_b
   \<and> (\<exists>g. add exact_power movable_a movable_b = Inr g \<and> mass g = 40
          \<and> vel g = (1 / 4, 3 / 2, 0) \<and> vscale (vel g) (mass g) = (10, 60, 0))"
  using add_conserves_mass_and_momentum [of movable_a movable_b exact_power]
  by (simp add: movable_a_def movable_b_def body_def)

text \<open>
  The merged position of two movable bodies in the code: the first position plus half of
  the second one.
\<close>

lemma add_movable_position:
  "\<not> imov a \<Longrightarrow> \<not> imov b \<Longrightarrow> 0 \<le> mass a + mass b \<Longrightarrow>
   map_sum id pos (add pw a b) = Inr (vadd (pos a) (vdiv (pos b) 2))"
  by (simp add: add_returns)

text \<open>
  C3. The claim: the merge of two movable bodies lies at the midpoint of their positions.
  The code at two movable bodies at (2,4,6) and (4,8,10): the merged position is
  (4,8,11), the midpoint is (3,6,8).
\<close>

theorem add_movable_position_not_midpoint:
  "map_sum id pos (add pw movable_a movable_b) = Inr (4, 8, 11)
   \<and> midpoint (pos movable_a) (pos movable_b) = (3, 6, 8)"
  by (simp add: add_returns movable_a_def movable_b_def body_def midpoint_def)

text \<open>
  C7. A merge is immovable exactly when one of its operands is. When the first operand
  is immovable the merge sits at the first operand's position (also when both are
  immovable); when only the second is, at the second operand's position.
\<close>

theorem add_immovable:
  assumes "0 \<le> mass a + mass b"
  shows "\<exists>g. add pw a b = Inr g
           \<and> imov g = (imov a \<or> imov b)
           \<and> (imov a \<longrightarrow> pos g = pos a)
           \<and> (\<not> imov a \<and> imov b \<longrightarrow> pos g = pos b)"
  using add_returns [OF assms] by simp

theorem add_immovable_witness:
  "0 \<le> mass movable_a + mass anchor
   \<and> (\<exists>g. add exact_power movable_a anchor = Inr g \<and> imov g \<and> pos g = (1, 2, 3))
   \<and> (\<exists>g. add exact_power anchor movable_a = Inr g \<and> imov g \<and> pos g = (1, 2, 3))
   \<and> (\<exists>g. add exact_power anchor (anchor\<lparr>pos := (7, 7, 7)\<rparr>) = Inr g \<and> imov g
          \<and> pos g = (1, 2, 3))"
  using add_immovable [of movable_a anchor exact_power]
    add_immovable [of anchor movable_a exact_power]
    add_immovable [of anchor "anchor\<lparr>pos := (7, 7, 7)\<rparr>" exact_power]
  by (simp add: movable_a_def anchor_def body_def)

section \<open>Normalising a vector\<close>

lemma normalize3_zero: "normalize3 zero3 = zero3"
  by (simp add: normalize3_def zero3_def)

text \<open>A vector with a zero component comes back as it is.\<close>

lemma normalize3_some_zero: "\<not> vall v \<Longrightarrow> normalize3 v = v"
  by (simp add: normalize3_def)

text \<open>A vector without a zero component is divided by its length and gets length 1.\<close>

lemma normalize3_unit:
  assumes "vall v"
  shows "normalize3 v = vdiv v (distance v zero3) \<and> distance (normalize3 v) zero3 = 1"
proof -
  obtain a b c where v: "v = (a, b, c)" by (cases v)
  define s where "s = a\<^sup>2 + b\<^sup>2 + c\<^sup>2"
  from assms v have "a \<noteq> 0" by simp
  then have "0 < a\<^sup>2" by simp
  moreover have "0 \<le> b\<^sup>2" "0 \<le> c\<^sup>2" by simp_all
  ultimately have s: "0 < s" unfolding s_def by linarith
  have sq: "(sqrt s)\<^sup>2 = s" using s by simp
  have "(a / sqrt s)\<^sup>2 + (b / sqrt s)\<^sup>2 + (c / sqrt s)\<^sup>2 = (a\<^sup>2 + b\<^sup>2 + c\<^sup>2) / s"
    by (simp add: power_divide sq add_divide_distrib)
  also have "\<dots> = 1" using s by (simp add: s_def)
  finally have "sqrt ((a / sqrt s)\<^sup>2 + (b / sqrt s)\<^sup>2 + (c / sqrt s)\<^sup>2) = 1" by simp
  with assms v show ?thesis
    by (simp add: normalize3_def zero3_def s_def)
qed

text \<open>
  C4. The claim: every nonzero vector is divided by its length and comes out with length
  1. The code at the nonzero vector (0,100,0): it comes back unchanged, with length 100;
  dividing it by its length would give (0,1,0).
\<close>

theorem normalize3_keeps_axis_vector:
  "normalize3 (0, 100, 0) = (0, 100, 0)
   \<and> distance (normalize3 (0, 100, 0)) zero3 = 100
   \<and> vdiv (0, 100, 0) (distance (0, 100, 0) zero3) = (0, 1, 0)"
  by (simp add: normalize3_def zero3_def)

section \<open>The force pass\<close>

lemma GRAVEC_pos: "0 < GRAVEC"
  by (simp add: GRAVEC_def)

lemma pair_force_value:
  assumes "0 < mass a" and "0 < mass b"
  shows "pair_force a b =
    Inr (let d = distance (pos a) (pos b); raw = GRAVEC * (mass a * 1000 * mass b * 1000)
         in if d = 0 then 0 else if d \<le> 5 then ln (raw / d\<^sup>2) else raw / d\<^sup>2)"
proof -
  have "0 < GRAVEC * (mass a * 1000 * mass b * 1000)"
    using assms GRAVEC_pos by simp
  then have "distance (pos a) (pos b) \<noteq> 0 \<Longrightarrow>
      0 < GRAVEC * (mass a * 1000 * mass b * 1000) / (distance (pos a) (pos b))\<^sup>2"
    by simp
  then show ?thesis
    by (simp add: pair_force_def Let_def)
qed

text \<open>
  With positive masses the scalar \<^verbatim>\<open>force\<close> of one pair is the specification's magnitude,
  and the pair's partial force is the direction times that magnitude.
\<close>

lemma pair_force_spec:
  assumes "0 < mass a" and "0 < mass b"
  shows "pair_force a b = Inr (spec_magnitude (mass a) (mass b) (distance (pos a) (pos b)))"
proof -
  have raw: "GRAVEC * (mass a * 1000 * mass b * 1000) = spec_raw (mass a) (mass b)"
    by (simp add: GRAVEC_def spec_raw_def)
  have "0 < spec_raw (mass a) (mass b)"
    using assms by (simp add: spec_raw_def)
  then have "distance (pos a) (pos b) \<noteq> 0 \<Longrightarrow>
      0 < spec_raw (mass a) (mass b) / (distance (pos a) (pos b))\<^sup>2"
    by simp
  then show ?thesis
    unfolding pair_force_def Let_def raw spec_magnitude_def by simp
qed

lemma par_force_spec:
  assumes "0 < mass a" and "0 < mass b"
  shows "par_force a b = Inr (spec_contribution a b)"
  by (simp add: par_force_def pair_force_spec [OF assms] spec_contribution_def)

text \<open>The inner loop over \<^verbatim>\<open>j\<close>: one contribution for every index other than \<^verbatim>\<open>i\<close>.\<close>

lemma par_forces_spec:
  assumes "list_all (\<lambda>g. 0 < mass g) gs" and "i < length gs"
  shows "list_all (\<lambda>j. j < length gs) js \<Longrightarrow>
         par_forces gs i js =
           Inr (map (\<lambda>j. spec_contribution (gs ! i) (gs ! j)) (filter (\<lambda>j. i \<noteq> j) js))"
proof (induction js)
  case Nil
  then show ?case by simp
next
  case (Cons j js)
  then have j: "j < length gs" and rest: "par_forces gs i js =
      Inr (map (\<lambda>j. spec_contribution (gs ! i) (gs ! j)) (filter (\<lambda>j. i \<noteq> j) js))"
    by simp_all
  from assms j have "0 < mass (gs ! i)" "0 < mass (gs ! j)"
    by (simp_all add: list_all_length)
  from par_force_spec [OF this] rest show ?case by (cases "i = j") simp_all
qed

lemma all_indices: "list_all (\<lambda>j. j < length gs) [0 ..< length gs]"
  by (simp add: list_all_iff)

lemma net_force_spec:
  assumes "list_all (\<lambda>g. 0 < mass g) gs" and "i < length gs"
  shows "net_force gs i = Inr (spec_net_force gs i)"
  by (simp add: net_force_def par_forces_spec [OF assms all_indices] spec_net_force_def)

lemma forces_spec:
  assumes "list_all (\<lambda>g. 0 < mass g) gs"
  shows "list_all (\<lambda>i. i < length gs) is \<Longrightarrow> forces gs is = Inr (map (spec_net_force gs) is)"
proof (induction "is")
  case Nil
  then show ?case by simp
next
  case (Cons i "is")
  then have "i < length gs" and "forces gs is = Inr (map (spec_net_force gs) is)"
    by simp_all
  with net_force_spec [OF assms] show ?case by simp
qed

lemma zip_indexed:
  "map (\<lambda>(g, f). update g f) (zip gs (map F [0 ..< length gs])) =
   map (\<lambda>k. update (gs ! k) (F k)) [0 ..< length gs]"
  by (rule nth_equalityI) simp_all

lemma gravity_spec:
  assumes "list_all (\<lambda>g. 0 < mass g) gs"
  shows "gravity gs = Inr (map (\<lambda>k. update (gs ! k) (spec_net_force gs k)) [0 ..< length gs])"
  by (simp add: gravity_def forces_spec [OF assms all_indices] zip_indexed)

text \<open>
  C1. On a list of bodies with positive masses, for every body \<open>i\<close> of the list: the
  scalar \<^verbatim>\<open>force\<close> that the force pass computes for \<open>i\<close> and any other body \<open>j\<close> is the
  specification's piecewise magnitude of the two masses and the distance of the two
  positions (0 at distance 0, else \<open>raw / d^2\<close>, and its natural logarithm when
  \<open>d \<le> 5\<close>); the inner loop of the pass collects, for every \<open>j\<close> other than \<open>i\<close> and in
  the order of the list, the direction times that magnitude; and the pass updates every
  body with the sum of these contributions.
\<close>

theorem gravity_uses_spec_magnitude:
  assumes "list_all (\<lambda>g. 0 < mass g) gs" and "i < length gs"
  shows "(\<forall>j < length gs. i \<noteq> j \<longrightarrow>
            pair_force (gs ! i) (gs ! j) =
              Inr (spec_magnitude (mass (gs ! i)) (mass (gs ! j))
                     (distance (pos (gs ! i)) (pos (gs ! j)))))
         \<and> par_forces gs i [0 ..< length gs] =
             Inr (map (\<lambda>j. spec_contribution (gs ! i) (gs ! j))
                    (filter (\<lambda>j. i \<noteq> j) [0 ..< length gs]))
         \<and> gravity gs =
             Inr (map (\<lambda>k. update (gs ! k) (spec_net_force gs k)) [0 ..< length gs])"
proof (intro conjI allI impI)
  fix j
  assume "j < length gs"
  with assms have "0 < mass (gs ! i)" "0 < mass (gs ! j)"
    by (simp_all add: list_all_length)
  then show "pair_force (gs ! i) (gs ! j) =
      Inr (spec_magnitude (mass (gs ! i)) (mass (gs ! j))
             (distance (pos (gs ! i)) (pos (gs ! j))))"
    by (rule pair_force_spec)
next
  show "par_forces gs i [0 ..< length gs] =
      Inr (map (\<lambda>j. spec_contribution (gs ! i) (gs ! j))
             (filter (\<lambda>j. i \<noteq> j) [0 ..< length gs]))"
    by (rule par_forces_spec [OF assms all_indices])
next
  show "gravity gs =
      Inr (map (\<lambda>k. update (gs ! k) (spec_net_force gs k)) [0 ..< length gs])"
    by (rule gravity_spec [OF assms(1)])
qed

theorem gravity_uses_spec_magnitude_witness:
  "list_all (\<lambda>g. 0 < mass g) twin_world \<and> 1 < length twin_world
   \<and> pair_force heavy far_twin = Inr (6.67 / 10 ^ 11 * 1000 * (30 * 1000) * (10 * 1000) / 100\<^sup>2)
   \<and> pair_force heavy light = Inr (ln (6.67 / 10 ^ 11 * 1000 * (30 * 1000) * (10 * 1000) / 1\<^sup>2))
   \<and> par_forces twin_world 1 [0 ..< length twin_world] =
       Inr [(100 * (2001 / 1000000), 0, 0), (ln (2001 / 100), 0, 0)]"
proof -
  have pm: "list_all (\<lambda>g. 0 < mass g) twin_world"
    by (simp add: twin_world_def far_twin_def heavy_def light_def body_def)
  have i: "1 < length twin_world"
    by (simp add: twin_world_def)
  note t = gravity_uses_spec_magnitude [OF pm i]
  have far: "pair_force heavy far_twin =
      Inr (6.67 / 10 ^ 11 * 1000 * (30 * 1000) * (10 * 1000) / 100\<^sup>2)"
    using t [THEN conjunct1, rule_format, of 0]
    by (simp add: twin_world_def far_twin_def heavy_def body_def spec_magnitude_def spec_raw_def)
  have near: "pair_force heavy light =
      Inr (ln (6.67 / 10 ^ 11 * 1000 * (30 * 1000) * (10 * 1000) / 1\<^sup>2))"
    using t [THEN conjunct1, rule_format, of 2]
    by (simp add: twin_world_def light_def heavy_def body_def spec_magnitude_def spec_raw_def)
  have u: "[0 ..< length twin_world] = [0, 1, 2]"
    by (simp add: twin_world_def upt_rec)
  have loop: "par_forces twin_world 1 [0 ..< length twin_world] =
      Inr [(100 * (2001 / 1000000), 0, 0), (ln (2001 / 100), 0, 0)]"
    using t [THEN conjunct2, THEN conjunct1] unfolding u
    by (simp add: twin_world_def far_twin_def light_def heavy_def body_def spec_contribution_def
        spec_magnitude_def spec_raw_def normalize3_def)
  from pm i far near loop show ?thesis by simp
qed

text \<open>With positive masses no logarithm fails: the force pass returns.\<close>

lemma pair_force_returns:
  "0 < mass a \<Longrightarrow> 0 < mass b \<Longrightarrow> \<exists>f. pair_force a b = Inr f"
  by (simp add: pair_force_value)

lemma par_force_returns:
  "0 < mass a \<Longrightarrow> 0 < mass b \<Longrightarrow> \<exists>f. par_force a b = Inr f"
proof -
  assume "0 < mass a" and "0 < mass b"
  then obtain f where "pair_force a b = Inr f"
    using pair_force_returns by blast
  then show ?thesis by (simp add: par_force_def del: split_paired_Ex)
qed

lemma par_forces_returns:
  assumes "list_all (\<lambda>g. 0 < mass g) gs" and "i < length gs"
  shows "list_all (\<lambda>j. j < length gs) js \<Longrightarrow> \<exists>fs. par_forces gs i js = Inr fs"
proof (induction js)
  case Nil
  then show ?case by simp
next
  case (Cons j js)
  then have j: "j < length gs" and rest: "\<exists>fs. par_forces gs i js = Inr fs" by simp_all
  from assms j have "0 < mass (gs ! i)" "0 < mass (gs ! j)"
    by (simp_all add: list_all_length)
  from par_force_returns [OF this] obtain f where "par_force (gs ! i) (gs ! j) = Inr f" ..
  moreover from rest obtain fs where "par_forces gs i js = Inr fs" ..
  ultimately show ?case by (cases "i = j") (simp_all del: split_paired_Ex)
qed

lemma net_force_returns:
  assumes "list_all (\<lambda>g. 0 < mass g) gs" and "i < length gs"
  shows "\<exists>f. net_force gs i = Inr f"
proof -
  have "list_all (\<lambda>j. j < length gs) [0 ..< length gs]" by (simp add: list_all_iff)
  from par_forces_returns [OF assms this]
  obtain fs where "par_forces gs i [0 ..< length gs] = Inr fs" ..
  then show ?thesis by (simp add: net_force_def del: split_paired_Ex)
qed

lemma forces_returns:
  assumes "list_all (\<lambda>g. 0 < mass g) gs"
  shows "list_all (\<lambda>i. i < length gs) is \<Longrightarrow> \<exists>fs. forces gs is = Inr fs"
proof (induction "is")
  case Nil
  then show ?case by simp
next
  case (Cons i "is")
  then have "i < length gs" and rest: "\<exists>fs. forces gs is = Inr fs" by simp_all
  from net_force_returns [OF assms this(1)] obtain f where "net_force gs i = Inr f" ..
  moreover from rest obtain fs where "forces gs is = Inr fs" ..
  ultimately show ?case by (simp del: split_paired_Ex)
qed

lemma forces_length: "forces gs is = Inr fs \<Longrightarrow> length fs = length is"
proof (induction "is" arbitrary: fs)
  case Nil
  then show ?case by simp
next
  case (Cons i "is")
  from Cons.prems obtain f fs' where "forces gs is = Inr fs'" and "fs = f # fs'"
    by (cases "net_force gs i"; cases "forces gs is") auto
  with Cons.IH show ?case by simp
qed

lemma gravity_returns:
  assumes "list_all (\<lambda>g. 0 < mass g) gs"
  shows "\<exists>gs'. gravity gs = Inr gs'"
proof -
  have "list_all (\<lambda>i. i < length gs) [0 ..< length gs]" by (simp add: list_all_iff)
  from forces_returns [OF assms this]
  obtain fs where "forces gs [0 ..< length gs] = Inr fs" ..
  then show ?thesis by (simp add: gravity_def del: split_paired_Ex)
qed

text \<open>The force pass only calls \<^verbatim>\<open>update\<close>: a field that \<^verbatim>\<open>update\<close> keeps is kept.\<close>

lemma zip_update_keeps:
  assumes "\<And>g f. h (update g f) = h g"
  shows "length fs = length gs \<Longrightarrow> map h (map (\<lambda>(g, f). update g f) (zip gs fs)) = map h gs"
  by (induction gs fs rule: list_induct2') (simp_all add: assms)

lemma gravity_keeps:
  assumes "\<And>g f. h (update g f) = h g" and "gravity gs = Inr gs'"
  shows "map h gs' = map h gs"
proof -
  from assms(2) obtain fs where fs: "forces gs [0 ..< length gs] = Inr fs"
    and gs': "gs' = map (\<lambda>(g, f). update g f) (zip gs fs)"
    by (cases "forces gs [0 ..< length gs]") (auto simp: gravity_def)
  from forces_length [OF fs] have "length fs = length gs" by simp
  with gs' show ?thesis
    using zip_update_keeps [of h fs gs] assms(1) by simp
qed

section \<open>The integrator\<close>

lemma integrate_Cons: "integrate g (f # fs) = integrate (move (update g f)) fs"
  by (simp add: integrate_def)

lemma step_immovable:
  "imov g \<Longrightarrow> move (update g f) = g\<lparr>vel := vadd (vel g) (vdiv f (mass g))\<rparr>"
  by (simp add: move_def update_def)

text \<open>
  C5, the claim as stated fails: the immovable body \<open>anchor\<close> starts with velocity
  (0,0,0), and one velocity update with the force (70,0,0) followed by the position
  update leaves it with velocity (1,0,0).
\<close>

theorem update_changes_anchor_velocity:
  "imov anchor \<and> vel anchor = (0, 0, 0) \<and> vel (move (update anchor (70, 0, 0))) = (1, 0, 0)"
  by (simp add: anchor_def body_def update_def move_def)

text \<open>
  C5, amended. For a body whose immovable flag is true, the integrator calls (velocity
  update from the force, then position update from the velocity) leave its position and
  its flag unchanged, for any forces and any number of ticks; the velocity is not
  protected by the flag: every tick adds force / mass to it.
\<close>

theorem immovable_position_kept:
  assumes "imov g"
  shows "pos (integrate g fs) = pos g
         \<and> imov (integrate g fs)
         \<and> vel (integrate g fs) = fold (\<lambda>force v. vadd v (vdiv force (mass g))) fs (vel g)"
  using assms
proof (induction fs arbitrary: g)
  case Nil
  then show ?case by (simp add: integrate_def)
next
  case (Cons f fs)
  let ?g = "g\<lparr>vel := vadd (vel g) (vdiv f (mass g))\<rparr>"
  have "imov ?g" using Cons.prems by simp
  from Cons.IH [OF this] show ?case
    by (simp add: integrate_Cons step_immovable [OF Cons.prems])
qed

theorem immovable_position_kept_witness:
  "imov anchor
   \<and> pos (integrate anchor [(70, 0, 0), (0, 140, 0)]) = (1, 2, 3)
   \<and> imov (integrate anchor [(70, 0, 0), (0, 140, 0)])
   \<and> vel (integrate anchor [(70, 0, 0), (0, 140, 0)]) = (1, 2, 0)"
  using immovable_position_kept [of anchor "[(70, 0, 0), (0, 140, 0)]"]
  by (simp add: anchor_def body_def)

section \<open>The merge pass\<close>

subsection \<open>Removing and overwriting list items\<close>

lemma list_remove_member:
  "x \<in> set gs \<Longrightarrow> \<exists>gs'. list_remove x gs = Inr gs'"
  by (induction gs) (auto simp: gp_eq_refl)

lemma list_remove_inv:
  "list_remove x gs = Inr gs' \<Longrightarrow> list_all P gs \<Longrightarrow> list_all P gs' \<and> Suc (length gs') = length gs"
proof (induction gs arbitrary: gs')
  case Nil
  then show ?case by simp
next
  case (Cons g gs)
  show ?case
  proof (cases "gp_eq g x")
    case True
    with Cons.prems show ?thesis by auto
  next
    case False
    with Cons.prems obtain r where r: "list_remove x gs = Inr r" and gs': "gs' = g # r"
      by (cases "list_remove x gs") auto
    from Cons.IH [OF r] Cons.prems(2) gs' show ?thesis by simp
  qed
qed

lemma list_set_inv:
  "list_set gs k new = Inr gs' \<Longrightarrow> list_all P gs \<Longrightarrow> P new \<Longrightarrow>
   list_all P gs' \<and> length gs' = length gs"
  by (auto simp: list_set_def list_all_iff split: if_splits dest: subsetD [OF set_update_subset_insert])

lemma remove_then_set_inv:
  assumes "remove_then_set x k new gs = Inr gs' \<or> remove_then_set x k new gs = Inl (e, gs')"
    and "list_all P gs" and "P new"
  shows "list_all P gs' \<and> length gs' \<le> length gs"
proof (cases "list_remove x gs")
  case (Inl err)
  with assms show ?thesis by (auto simp: remove_then_set_def)
next
  case (Inr gs1)
  from list_remove_inv [OF Inr assms(2)]
  have gs1: "list_all P gs1" "Suc (length gs1) = length gs" by simp_all
  show ?thesis
  proof (cases "list_set gs1 k new")
    case (Inl err)
    with Inr assms(1) have "gs' = gs1" by (auto simp: remove_then_set_def)
    with gs1 show ?thesis by simp
  next
    case (Inr gs2)
    with \<open>list_remove x gs = Inr gs1\<close> assms(1) have "gs' = gs2"
      by (auto simp: remove_then_set_def)
    with list_set_inv [OF Inr gs1(1) assms(3)] gs1(2) show ?thesis by simp
  qed
qed

lemma remove_then_set_error:
  assumes "remove_then_set x k new gs = Inl (e, gs')" and "x \<in> set gs"
  shows "e = IndexError"
proof -
  from list_remove_member [OF assms(2)] obtain gs1 where "list_remove x gs = Inr gs1" ..
  with assms(1) show ?thesis
    by (auto simp: remove_then_set_def list_set_def split: if_splits)
qed

subsection \<open>An invariant of the bodies through the two loops\<close>

text \<open>
  A property \<open>P\<close> of bodies that every successful merge establishes holds for the whole
  list after the pass; the list never grows. When the merge of two \<open>P\<close> bodies never
  raises, the only exception inside the \<^verbatim>\<open>try\<close> is IndexError, and the pass returns.
\<close>

lemma merge_pair_inv:
  assumes addP: "\<And>a b g. P a \<Longrightarrow> P b \<Longrightarrow> add pw a b = Inr g \<Longrightarrow> P g"
    and res: "merge_pair pw i j gs = Inr gs' \<or> merge_pair pw i j gs = Inl (e, gs')"
    and inv: "list_all P gs"
  shows "list_all P gs' \<and> length gs' \<le> length gs"
proof (cases "length gs \<le> i \<or> length gs \<le> j")
  case True
  with res inv show ?thesis by (auto simp: merge_pair_def)
next
  case False
  then have ij: "i < length gs" "j < length gs" by simp_all
  with inv have Pij: "P (gs ! i)" "P (gs ! j)" by (simp_all add: list_all_length)
  show ?thesis
  proof (cases "distance (pos (gs ! i)) (pos (gs ! j)) < of_int (radius (gs ! i) + radius (gs ! j))")
    case far: False
    with False res inv show ?thesis by (auto simp: merge_pair_def Let_def)
  next
    case near: True
    show ?thesis
    proof (cases "add pw (gs ! i) (gs ! j)")
      case (Inl err)
      with False near res inv show ?thesis by (auto simp: merge_pair_def Let_def)
    next
      case (Inr new)
      have "P new" by (rule addP [OF Pij Inr])
      from False near Inr res
      have "\<exists>x k. remove_then_set x k new gs = Inr gs' \<or> remove_then_set x k new gs = Inl (e, gs')"
        by (auto simp: merge_pair_def Let_def split: if_splits)
      then obtain x k where
        "remove_then_set x k new gs = Inr gs' \<or> remove_then_set x k new gs = Inl (e, gs')"
        by blast
      from remove_then_set_inv [OF this inv \<open>P new\<close>] show ?thesis .
    qed
  qed
qed

lemma merge_pair_error:
  assumes addQ: "\<And>a b. Q a \<Longrightarrow> Q b \<Longrightarrow> \<exists>g. add pw a b = Inr g"
    and res: "merge_pair pw i j gs = Inl (e, gs')"
    and inv: "list_all Q gs"
  shows "e = IndexError"
proof (cases "length gs \<le> i \<or> length gs \<le> j")
  case True
  with res show ?thesis by (auto simp: merge_pair_def)
next
  case False
  then have ij: "i < length gs" "j < length gs" by simp_all
  with inv have "Q (gs ! i)" "Q (gs ! j)" by (simp_all add: list_all_length)
  then have "\<exists>g. add pw (gs ! i) (gs ! j) = Inr g" by (rule addQ)
  then obtain new where new: "add pw (gs ! i) (gs ! j) = Inr new" ..
  from ij have mem: "gs ! i \<in> set gs" "gs ! j \<in> set gs" by simp_all
  from False new res
  have "remove_then_set (gs ! i) j new gs = Inl (e, gs')
      \<or> remove_then_set (gs ! j) i new gs = Inl (e, gs')"
    by (auto simp: merge_pair_def Let_def split: if_splits)
  with mem show ?thesis by (auto dest: remove_then_set_error)
qed

lemma inner_loop_inv:
  assumes addP: "\<And>a b g. P a \<Longrightarrow> P b \<Longrightarrow> add pw a b = Inr g \<Longrightarrow> P g"
  shows "inner_loop pw i js gs = Inr gs' \<Longrightarrow> list_all P gs \<Longrightarrow>
         list_all P gs' \<and> length gs' \<le> length gs"
proof (induction js arbitrary: gs)
  case Nil
  then show ?case by simp
next
  case (Cons j js)
  show ?case
  proof (cases "merge_pair pw i j gs")
    case (Inl p)
    obtain e gs1 where p: "p = (e, gs1)" by (cases p)
    with Inl have mp: "merge_pair pw i j gs = Inl (e, gs1)" by simp
    with Cons.prems(1) have rest: "inner_loop pw i js gs1 = Inr gs'"
      by (simp split: if_splits)
    have "list_all P gs1 \<and> length gs1 \<le> length gs"
    proof (rule merge_pair_inv [where P = P and e = e])
      show "\<And>a b g. P a \<Longrightarrow> P b \<Longrightarrow> add pw a b = Inr g \<Longrightarrow> P g" by (rule addP)
      show "merge_pair pw i j gs = Inr gs1 \<or> merge_pair pw i j gs = Inl (e, gs1)" using mp by simp
      show "list_all P gs" by (rule Cons.prems(2))
    qed
    with Cons.IH [OF rest] show ?thesis by simp
  next
    case (Inr gs1)
    with Cons.prems(1) have rest: "inner_loop pw i js gs1 = Inr gs'" by simp
    have "list_all P gs1 \<and> length gs1 \<le> length gs"
    proof (rule merge_pair_inv [where P = P and e = IndexError])
      show "\<And>a b g. P a \<Longrightarrow> P b \<Longrightarrow> add pw a b = Inr g \<Longrightarrow> P g" by (rule addP)
      show "merge_pair pw i j gs = Inr gs1 \<or> merge_pair pw i j gs = Inl (IndexError, gs1)"
        using Inr by simp
      show "list_all P gs" by (rule Cons.prems(2))
    qed
    with Cons.IH [OF rest] show ?thesis by simp
  qed
qed

lemma inner_loop_returns:
  assumes addP: "\<And>a b g. P a \<Longrightarrow> P b \<Longrightarrow> add pw a b = Inr g \<Longrightarrow> P g"
    and addQ: "\<And>a b. P a \<Longrightarrow> P b \<Longrightarrow> \<exists>g. add pw a b = Inr g"
  shows "list_all P gs \<Longrightarrow> \<exists>gs'. inner_loop pw i js gs = Inr gs'"
proof (induction js arbitrary: gs)
  case Nil
  then show ?case by simp
next
  case (Cons j js)
  show ?case
  proof (cases "merge_pair pw i j gs")
    case (Inl p)
    obtain e gs1 where p: "p = (e, gs1)" by (cases p)
    with Inl have mp: "merge_pair pw i j gs = Inl (e, gs1)" by simp
    have e: "e = IndexError"
    proof (rule merge_pair_error [where Q = P])
      show "\<And>a b. P a \<Longrightarrow> P b \<Longrightarrow> \<exists>g. add pw a b = Inr g" by (rule addQ)
      show "merge_pair pw i j gs = Inl (e, gs1)" by (rule mp)
      show "list_all P gs" by (rule Cons.prems)
    qed
    have "list_all P gs1 \<and> length gs1 \<le> length gs"
    proof (rule merge_pair_inv [where P = P and e = e])
      show "\<And>a b g. P a \<Longrightarrow> P b \<Longrightarrow> add pw a b = Inr g \<Longrightarrow> P g" by (rule addP)
      show "merge_pair pw i j gs = Inr gs1 \<or> merge_pair pw i j gs = Inl (e, gs1)" using mp by simp
      show "list_all P gs" by (rule Cons.prems)
    qed
    then have "list_all P gs1" ..
    from Cons.IH [OF this] mp e show ?thesis by simp
  next
    case (Inr gs1)
    have "list_all P gs1 \<and> length gs1 \<le> length gs"
    proof (rule merge_pair_inv [where P = P and e = IndexError])
      show "\<And>a b g. P a \<Longrightarrow> P b \<Longrightarrow> add pw a b = Inr g \<Longrightarrow> P g" by (rule addP)
      show "merge_pair pw i j gs = Inr gs1 \<or> merge_pair pw i j gs = Inl (IndexError, gs1)"
        using Inr by simp
      show "list_all P gs" by (rule Cons.prems)
    qed
    then have "list_all P gs1" ..
    from Cons.IH [OF this] Inr show ?thesis by simp
  qed
qed

lemma outer_loop_inv:
  assumes addP: "\<And>a b g. P a \<Longrightarrow> P b \<Longrightarrow> add pw a b = Inr g \<Longrightarrow> P g"
  shows "outer_loop pw is gs = Inr gs' \<Longrightarrow> list_all P gs \<Longrightarrow>
         list_all P gs' \<and> length gs' \<le> length gs"
proof (induction "is" arbitrary: gs)
  case Nil
  then show ?case by simp
next
  case (Cons i "is")
  from Cons.prems(1) obtain gs1 where
    inner: "inner_loop pw i [i + 1 ..< length gs] gs = Inr gs1" and rest: "outer_loop pw is gs1 = Inr gs'"
    by (cases "inner_loop pw i [i + 1 ..< length gs] gs") auto
  have "list_all P gs1 \<and> length gs1 \<le> length gs"
    by (rule inner_loop_inv [where P = P, OF _ inner Cons.prems(2)]) (rule addP)
  with Cons.IH [OF rest] show ?case by simp
qed

lemma outer_loop_returns:
  assumes addP: "\<And>a b g. P a \<Longrightarrow> P b \<Longrightarrow> add pw a b = Inr g \<Longrightarrow> P g"
    and addQ: "\<And>a b. P a \<Longrightarrow> P b \<Longrightarrow> \<exists>g. add pw a b = Inr g"
  shows "list_all P gs \<Longrightarrow> \<exists>gs'. outer_loop pw is gs = Inr gs'"
proof (induction "is" arbitrary: gs)
  case Nil
  then show ?case by simp
next
  case (Cons i "is")
  have "\<exists>gs1. inner_loop pw i [i + 1 ..< length gs] gs = Inr gs1"
    by (rule inner_loop_returns [where P = P, OF _ _ Cons.prems]) (erule (2) addP, erule (1) addQ)
  then obtain gs1 where inner: "inner_loop pw i [i + 1 ..< length gs] gs = Inr gs1" ..
  have "list_all P gs1 \<and> length gs1 \<le> length gs"
    by (rule inner_loop_inv [where P = P, OF _ inner Cons.prems]) (rule addP)
  then have "list_all P gs1" ..
  from Cons.IH [OF this] inner show ?case by simp
qed

lemma inner_loop_skips:
  "length hs \<le> i \<or> length hs \<le> j \<Longrightarrow> inner_loop pw i (j # js) hs = inner_loop pw i js hs"
  by (simp add: merge_pair_def)

text \<open>With masses that are not negative the merge pass returns.\<close>

lemma merge_detect_returns:
  assumes "list_all (\<lambda>g. 0 \<le> mass g) gs"
  shows "\<exists>gs'. merge_detect pw gs = Inr gs' \<and> list_all (\<lambda>g. 0 \<le> mass g) gs'
           \<and> length gs' \<le> length gs"
proof -
  have "\<exists>gs'. outer_loop pw [0 ..< length gs] gs = Inr gs'"
    by (rule outer_loop_returns [where P = "\<lambda>g. 0 \<le> mass g", OF _ _ assms])
       (erule add_nonneg, erule (1) add_nonneg_returns)
  then obtain gs' where r: "outer_loop pw [0 ..< length gs] gs = Inr gs'" ..
  have "list_all (\<lambda>g. 0 \<le> mass g) gs' \<and> length gs' \<le> length gs"
    by (rule outer_loop_inv [where P = "\<lambda>g. 0 \<le> mass g", OF _ r assms]) (erule add_nonneg)
  with r show ?thesis by (simp add: merge_detect_def)
qed

lemma merge_detect_radius_derived:
  assumes "merge_detect pw gs = Inr gs'" and "list_all (radius_derived pw) gs"
  shows "list_all (radius_derived pw) gs'"
proof -
  have "list_all (radius_derived pw) gs' \<and> length gs' \<le> length gs"
    by (rule outer_loop_inv [where P = "radius_derived pw",
          OF _ assms(1) [unfolded merge_detect_def] assms(2)])
       (rule add_radius_derived)
  then show ?thesis ..
qed

subsection \<open>The pass on the example worlds\<close>

text \<open>
  In \<open>crowded_world\<close> the first two bodies merge; the list shrinks to two items and the
  next index of the inner loop, 2, is out of range: IndexError, caught.
\<close>

lemma merge_detect_crowded_world:
  "merge_detect pw crowded_world = Inr [light_heavy (py_int (pw 40)), bystander]"
proof -
  have neq: "\<not> gp_eq light heavy"
    by (simp add: gp_eq_def heavy_def light_def body_def)
  have near: "distance (pos light) (pos heavy) < of_int (radius light + radius heavy)"
    by (simp add: heavy_def light_def body_def)
  have m01: "merge_pair pw 0 (Suc 0) crowded_world = Inr [light_heavy (py_int (pw 40)), bystander]"
    using neq near
    by (simp add: merge_pair_def crowded_world_def Let_def add_light_heavy remove_then_set_def
        list_set_def gp_eq_refl)
  have m02: "merge_pair pw 0 2 [light_heavy (py_int (pw 40)), bystander] = Inl (IndexError, [light_heavy (py_int (pw 40)), bystander])"
    by (simp add: merge_pair_def)
  have i0: "inner_loop pw 0 [Suc 0, 2] crowded_world = Inr [light_heavy (py_int (pw 40)), bystander]"
    by (simp add: m01 m02)
  have u: "[0 ..< length crowded_world] = [0, Suc 0, 2]"
    by (simp add: crowded_world_def upt_rec)
  have r0: "[0 + 1 ..< length crowded_world] = [Suc 0, 2]"
    by (simp add: crowded_world_def upt_rec)
  have r1: "[Suc 0 + 1 ..< length [light_heavy (py_int (pw 40)), bystander]] = []"
    by simp
  have r2: "[2 + 1 ..< length [light_heavy (py_int (pw 40)), bystander]] = []"
    by simp
  show ?thesis
    unfolding merge_detect_def
    by (simp only: u outer_loop.simps r0 i0 r1 r2 inner_loop.simps(1) bindE_Inr)
qed

text \<open>
  In \<open>twin_world\<close> the second and the third body merge. \<^verbatim>\<open>gpoints.remove(gpoints[2])\<close>
  deletes the first item that \<^verbatim>\<open>__eq__\<close> calls equal to the third body, which is the
  first body: same mass, and in both positions and both velocities some component is
  zero. The merge then overwrites index 1, where the third body now is: the second
  body stays in the list beside the merge that contains it.
\<close>

lemma remove_takes_first_equal: "list_remove light twin_world = Inr [heavy, light]"
  by (simp add: twin_world_def gp_eq_def far_twin_def light_def body_def)

lemma merge_detect_twin_world:
  "merge_detect pw twin_world = Inr [heavy, heavy_light (py_int (pw 40))]"
proof -
  have far01: "merge_pair pw 0 (Suc 0) twin_world = Inr twin_world"
    by (simp add: merge_pair_def twin_world_def far_twin_def heavy_def body_def)
  have far02: "merge_pair pw 0 2 twin_world = Inr twin_world"
    by (simp add: merge_pair_def twin_world_def far_twin_def light_def body_def)
  have eq: "gp_eq far_twin light"
    by (simp add: gp_eq_def far_twin_def light_def body_def)
  have near: "distance (pos heavy) (pos light) < of_int (radius heavy + radius light)"
    by (simp add: heavy_def light_def body_def)
  have m12: "merge_pair pw (Suc 0) 2 twin_world = Inr [heavy, heavy_light (py_int (pw 40))]"
    using eq near
    by (simp add: merge_pair_def twin_world_def Let_def add_heavy_light remove_then_set_def
        list_set_def)
  have i0: "inner_loop pw 0 [Suc 0, 2] twin_world = Inr twin_world"
    by (simp add: far01 far02)
  have i1: "inner_loop pw (Suc 0) [2] twin_world = Inr [heavy, heavy_light (py_int (pw 40))]"
    by (simp add: m12)
  have u: "[0 ..< length twin_world] = [0, Suc 0, 2]"
    by (simp add: twin_world_def upt_rec)
  have r0: "[0 + 1 ..< length twin_world] = [Suc 0, 2]"
    by (simp add: twin_world_def upt_rec)
  have r1: "[Suc 0 + 1 ..< length twin_world] = [2]"
    by (simp add: twin_world_def upt_rec)
  have r2: "[2 + 1 ..< length [heavy, heavy_light (py_int (pw 40))]] = []"
    by simp
  show ?thesis
    unfolding merge_detect_def
    by (simp only: u outer_loop.simps r0 i0 r1 i1 r2 inner_loop.simps(1) bindE_Inr)
qed

text \<open>
  C9. The claim: the merge pass never propagates an exception, a caught IndexError only
  skips a pair, and no merge leaves the list in an invalid state. The code on
  \<open>twin_world\<close>: the pass returns without an exception, but the list it leaves holds
  the body \<open>heavy\<close> beside the merge of \<open>heavy\<close> and \<open>light\<close>, so \<open>heavy\<close> is in the
  list twice over, and \<open>far_twin\<close>, which overlapped nothing and took part in no merge,
  is gone; the masses of the list sum to 70 where they summed to 50.
\<close>

theorem merge_detect_leaves_merged_body:
  "merge_detect pw twin_world = Inr [heavy, heavy_light (py_int (pw 40))]
   \<and> add pw heavy light = Inr (heavy_light (py_int (pw 40)))
   \<and> far_twin \<notin> set [heavy, heavy_light (py_int (pw 40))]
   \<and> total_mass [heavy, heavy_light (py_int (pw 40))] = 70
   \<and> total_mass twin_world = 50"
proof -
  have gone: "far_twin \<notin> set [heavy, heavy_light (py_int (pw 40))]"
    by (simp add: far_twin_def heavy_def heavy_light_def body_def)
  have after: "total_mass [heavy, heavy_light (py_int (pw 40))] = 70"
    by (simp add: total_mass_def heavy_def heavy_light_def body_def)
  have before: "total_mass twin_world = 50"
    by (simp add: total_mass_def twin_world_def far_twin_def heavy_def light_def body_def)
  from merge_detect_twin_world [of pw] add_heavy_light [of pw] gone after before
  show ?thesis by (intro conjI)
qed

section \<open>Whole ticks\<close>

lemma updateall_keeps:
  assumes upd: "\<And>g f. h (update g f) = h g" and mv: "\<And>g. h (move g) = h g"
    and res: "updateall pw gs = Inr gs'"
  shows "\<exists>gs1. merge_detect pw gs = Inr gs1 \<and> map h gs' = map h gs1"
proof -
  from res obtain gs1 gs2 where m: "merge_detect pw gs = Inr gs1" and g: "gravity gs1 = Inr gs2"
    and gs': "gs' = map move gs2"
    by (cases "merge_detect pw gs"; cases "gravity (projr (merge_detect pw gs))")
       (auto simp: updateall_def)
  have "map h gs2 = map h gs1"
    by (rule gravity_keeps [OF _ g]) (rule upd)
  moreover have "map h (map move gs2) = map h gs2"
    by (simp add: mv)
  ultimately show ?thesis using m gs' by simp
qed

lemma list_all_map_eq:
  "map P xs = map P ys \<Longrightarrow> list_all P xs = list_all P ys"
proof -
  assume "map P xs = map P ys"
  then have "list_all (\<lambda>b. b) (map P xs) = list_all (\<lambda>b. b) (map P ys)" by simp
  then show ?thesis by (simp add: list_all_iff)
qed

text \<open>
  The radius that the constructor derived stays the derived one: a merge builds its
  result with the constructor, and \<^verbatim>\<open>update\<close> and \<^verbatim>\<open>move\<close> change neither mass nor
  radius.
\<close>

lemma updateall_radius_derived:
  assumes "updateall pw gs = Inr gs'" and "list_all (radius_derived pw) gs"
  shows "list_all (radius_derived pw) gs'"
proof -
  have "\<exists>gs1. merge_detect pw gs = Inr gs1
          \<and> map (radius_derived pw) gs' = map (radius_derived pw) gs1"
    by (rule updateall_keeps [OF _ _ assms(1)])
       (simp_all add: radius_derived_def update_def move_def)
  then obtain gs1 where m: "merge_detect pw gs = Inr gs1"
    and eq: "map (radius_derived pw) gs' = map (radius_derived pw) gs1" by blast
  from merge_detect_radius_derived [OF m assms(2)] list_all_map_eq [OF eq]
  show ?thesis by simp
qed

lemma ticks_radius_derived:
  "ticks pw n gs = Inr gs' \<Longrightarrow> list_all (radius_derived pw) gs \<Longrightarrow>
   list_all (radius_derived pw) gs'"
proof (induction n arbitrary: gs)
  case 0
  then show ?case by simp
next
  case (Suc n)
  from Suc.prems(1) obtain gs1 where u: "updateall pw gs = Inr gs1"
    and t: "ticks pw n gs1 = Inr gs'"
    by (cases "updateall pw gs") auto
  from Suc.IH [OF t updateall_radius_derived [OF u Suc.prems(2)]] show ?case .
qed

text \<open>
  C8. The claim: every body has radius = floor(mass^(1/3)). The code at a body of mass
  64, on a platform whose double-precision power gives \<^verbatim>\<open>64 ** (1/3)\<close> as the double just
  below 4 (CPython prints 3.9999999999999996): the constructor sets the radius to 3,
  the floor of the cube root of 64 is 4.
\<close>

theorem radius_below_cube_root:
  assumes "pw 64 = below_four"
  shows "map_sum id radius (gravpoint_init pw p 64 v im c) = Inr 3 \<and> spec_radius 64 = 4"
  using assms by (simp add: gravpoint_init_def py_int_below_four spec_radius_64)

theorem radius_below_cube_root_witness:
  "(\<lambda>m. below_four) (64 :: real) = below_four
   \<and> map_sum id radius (gravpoint_init (\<lambda>m. below_four) (0, 0, 0) 64 (0, 0, 0) False white) = Inr 3
   \<and> spec_radius 64 = 4"
  using radius_below_cube_root [of "\<lambda>m. below_four" "(0, 0, 0)" "(0, 0, 0)" False white]
  by simp

text \<open>When the force pass has positive masses only, the tick returns with the masses
  that the merge pass left.\<close>

lemma total_mass_updateall:
  assumes "merge_detect pw gs = Inr gs1" and "list_all (\<lambda>g. 0 < mass g) gs1"
  shows "map_sum id total_mass (updateall pw gs) = Inr (total_mass gs1)"
proof -
  from gravity_returns [OF assms(2)] obtain gs2 where g: "gravity gs1 = Inr gs2" ..
  have "map mass gs2 = map mass gs1"
    by (rule gravity_keeps [OF _ g]) (simp add: update_def)
  moreover have "map mass (map move gs2) = map mass gs2"
    by (simp add: move_def)
  ultimately have "total_mass (map move gs2) = total_mass gs1"
    by (simp only: total_mass_def)
  with assms(1) g show ?thesis by (simp add: updateall_def)
qed

text \<open>
  C10. The claim: one tick conserves the sum of the masses. The code on \<open>twin_world\<close>,
  three bodies of masses 10, 30 and 10: the tick returns a list whose masses sum to 70,
  not 50.
\<close>

theorem tick_changes_total_mass:
  "map_sum id total_mass (updateall pw twin_world) = Inr 70 \<and> total_mass twin_world = 50"
proof -
  have "list_all (\<lambda>g. 0 < mass g) [heavy, heavy_light (py_int (pw 40))]"
    by (simp add: heavy_def heavy_light_def body_def)
  from total_mass_updateall [OF merge_detect_twin_world [of pw] this]
  show ?thesis
    by (simp add: total_mass_def twin_world_def far_twin_def heavy_def light_def heavy_light_def
        body_def)
qed

section \<open>Starting the program\<close>

text \<open>Without a scenario name the module leaves the list empty.\<close>

lemma no_scenario_no_bodies:
  assumes "''square'' \<notin> set argv" and "''circle'' \<notin> set argv"
    and "''line'' \<notin> set argv" and "''orbit'' \<notin> set argv"
  shows "module_gpoints pw argv = Inr []"
  using assms
  by (simp add: module_gpoints_def centerp_def gravpoint_init_def)

text \<open>
  The guard of \<^verbatim>\<open>main\<close> is never taken: the name \<^verbatim>\<open>gpoints\<close> is bound whenever \<^verbatim>\<open>main\<close>
  runs, so on no command line does the program print the diagnostic and exit.
\<close>

lemma program_never_exits: "program pw argv \<noteq> Exited status out"
  by (cases "module_gpoints pw argv") (simp_all add: program_def main_start_def)

text \<open>
  C6. The claim: without a recognized scenario name the program produces no bodies,
  prints a diagnostic and exits with a non-zero status. The code started without any
  scenario name: the module produces no bodies, and the program neither prints the
  diagnostic nor exits; it goes on to simulate the empty list.
\<close>

theorem no_scenario_keeps_simulating:
  "module_gpoints pw [''newtoniangravity.py''] = Inr []
   \<and> program pw [''newtoniangravity.py''] = Simulating []"
  by (simp add: program_def module_gpoints_def main_start_def centerp_def gravpoint_init_def)

end
